theory Spec2Isabelle
  imports Complex_Main
begin

section \<open>Strings\<close>

text \<open>
  A Python \<open>str\<close> is a sequence of code points. The model carries one code point per
  \<^typ>\<open>char\<close>, which covers the code points 0 to 255 (ASCII and Latin-1); text with
  code points above 255 is outside the model. On that range the three string methods
  used by the tokenizers act character by character as follows.

  \<open>str.isspace\<close> / the separators of \<open>str.split()\<close>: TAB, LF, VT, FF, CR (9 to 13),
  FS, GS, RS, US (28 to 31), SPACE (32), NEL (133) and NO-BREAK SPACE (160).
\<close>

definition isspace :: "char \<Rightarrow> bool" where
  "isspace c =
     (let n = (of_char c :: nat)
      in (9 \<le> n \<and> n \<le> 13) \<or> (28 \<le> n \<and> n \<le> 32) \<or> n = 133 \<or> n = 160)"

text \<open>
  \<open>str.isalnum\<close> is true of the letters and of the characters with a numeric value:
  the digits, A to Z, a to z, the ordinal indicators (170, 186), the micro sign (181),
  the superscript digits (178, 179, 185), the vulgar fractions (188 to 190) and the
  accented Latin-1 letters (192 to 255 without the multiplication sign 215 and the
  division sign 247).
\<close>

definition isalnum :: "char \<Rightarrow> bool" where
  "isalnum c =
     (let n = (of_char c :: nat)
      in (48 \<le> n \<and> n \<le> 57) \<or> (65 \<le> n \<and> n \<le> 90) \<or> (97 \<le> n \<and> n \<le> 122)
         \<or> n = 170 \<or> n = 178 \<or> n = 179 \<or> n = 181 \<or> n = 185 \<or> n = 186
         \<or> (188 \<le> n \<and> n \<le> 190) \<or> (192 \<le> n \<and> n \<le> 214)
         \<or> (216 \<le> n \<and> n \<le> 246) \<or> (248 \<le> n \<and> n \<le> 255))"

text \<open>
  \<open>str.lower\<close> maps A to Z and the upper-case Latin-1 letters (192 to 222 without 215)
  to the character 32 places further on and leaves every other character alone.
\<close>

definition lower_char :: "char \<Rightarrow> char" where
  "lower_char c =
     (let n = (of_char c :: nat)
      in if (65 \<le> n \<and> n \<le> 90) \<or> (192 \<le> n \<and> n \<le> 214) \<or> (216 \<le> n \<and> n \<le> 222)
         then char_of (n + 32) else c)"

definition str_lower :: "string \<Rightarrow> string" where
  "str_lower text = map lower_char text"

text \<open>
  \<open>str.split()\<close> without a separator: the maximal runs of characters that are not
  whitespace, in order; leading and trailing whitespace gives no empty piece.
  \<open>split_from cur rest\<close> scans \<open>rest\<close> with the run read so far in \<open>cur\<close>.
\<close>

fun split_from :: "string \<Rightarrow> string \<Rightarrow> string list" where
  "split_from cur [] = (if cur = [] then [] else [cur])"
| "split_from cur (c # cs) =
     (if isspace c then (if cur = [] then split_from [] cs else cur # split_from [] cs)
      else split_from (cur @ [c]) cs)"

definition str_split :: "string \<Rightarrow> string list" where
  "str_split s = split_from [] s"

text \<open>\<open>sep.join(parts)\<close>.\<close>

fun str_join :: "string \<Rightarrow> string list \<Rightarrow> string" where
  "str_join sep [] = []"
| "str_join sep [x] = x"
| "str_join sep (x # y # ys) = x @ sep @ str_join sep (y # ys)"

text \<open>\<open>s.replace('\n', ' ')\<close>: every line feed becomes a space.\<close>

definition replace_newlines :: "string \<Rightarrow> string" where
  "replace_newlines s = map (\<lambda>c. if c = CHR 0x0A then CHR '' '' else c) s"

text \<open>The decimal digits of a natural number, as \<open>str(i)\<close> prints an index.\<close>

fun show_nat :: "nat \<Rightarrow> string" where
  "show_nat n =
     (if n < 10 then [char_of (48 + n)]
      else show_nat (n div 10) @ [char_of (48 + n mod 10)])"

declare show_nat.simps [simp del]

section \<open>Tokenizers\<close>

text \<open>
  \<open>TrialIndexer.tokenize\<close> (indexer.py) and \<open>RAGChatbot.tokenize\<close> (chatbot.py) are two
  methods with the same three statements: lower-case and split on whitespace, keep the
  alphanumeric characters of every piece, drop the pieces that became empty.
\<close>

definition TrialIndexer_tokenize :: "string \<Rightarrow> string list" where
  "TrialIndexer_tokenize text =
     (let tokens = str_split (str_lower text);
          tokens = map (\<lambda>token. filter isalnum token) tokens;
          tokens = filter (\<lambda>t. t \<noteq> []) tokens
      in tokens)"

definition RAGChatbot_tokenize :: "string \<Rightarrow> string list" where
  "RAGChatbot_tokenize text =
     (let tokens = str_split (str_lower text);
          tokens = map (\<lambda>token. filter isalnum token) tokens;
          tokens = filter (\<lambda>t. t \<noteq> []) tokens
      in tokens)"

text \<open>
  The tokenizer as the specification words it: as above, but a piece keeps only its
  ASCII letters and ASCII digits.
\<close>

definition ascii_alnum :: "char \<Rightarrow> bool" where
  "ascii_alnum c =
     (let n = (of_char c :: nat)
      in (48 \<le> n \<and> n \<le> 57) \<or> (65 \<le> n \<and> n \<le> 90) \<or> (97 \<le> n \<and> n \<le> 122))"

definition is_ascii :: "char \<Rightarrow> bool" where
  "is_ascii c = ((of_char c :: nat) < 128)"

definition tokenize_spec :: "string \<Rightarrow> string list" where
  "tokenize_spec text =
     filter (\<lambda>t. t \<noteq> []) (map (filter ascii_alnum) (str_split (str_lower text)))"

section \<open>Trial records and the corpus\<close>

text \<open>
  A trial is a dictionary from field names to strings; a field may be absent.
  \<open>trial.get(key)\<close> is tested for truth, so an absent field and an empty string are
  both skipped.
\<close>

type_synonym trial = "string \<rightharpoonup> string"

definition part :: "trial \<Rightarrow> string \<Rightarrow> string \<Rightarrow> string list" where
  "part t key label =
     (case t key of
        None \<Rightarrow> []
      | Some v \<Rightarrow> if v \<noteq> [] then [label @ '': '' @ v] else [])"

definition eligibility_part :: "trial \<Rightarrow> string list" where
  "eligibility_part t =
     (case t ''EligibilityCriteria'' of
        None \<Rightarrow> []
      | Some v \<Rightarrow> if v \<noteq> [] then [''Eligibility: '' @ replace_newlines v] else [])"

definition create_trial_text :: "trial \<Rightarrow> string" where
  "create_trial_text t =
     str_join '' ''
       (part t ''NCTId'' ''Trial ID''
        @ part t ''BriefTitle'' ''Title''
        @ part t ''OfficialTitle'' ''Official Title''
        @ part t ''OverallStatus'' ''Status''
        @ part t ''Phase'' ''Phase''
        @ part t ''StudyType'' ''Study Type''
        @ part t ''Conditions'' ''Conditions''
        @ part t ''Interventions'' ''Interventions''
        @ eligibility_part t
        @ part t ''HealthyVolunteers'' ''Healthy Volunteers''
        @ part t ''Sex'' ''Sex''
        @ part t ''MinimumAge'' ''Minimum Age''
        @ part t ''MaximumAge'' ''Maximum Age''
        @ part t ''StandardAges'' ''Ages''
        @ part t ''PrimaryContactName'' ''Contact''
        @ part t ''PrimaryContactEmail'' ''Email''
        @ part t ''PrincipalInvestigatorName'' ''PI''
        @ part t ''PrincipalInvestigatorAffiliation'' ''Affiliation''
        @ part t ''USLocations'' ''Locations''
        @ part t ''Country'' ''Country''
        @ part t ''StartDate'' ''Start Date''
        @ part t ''CompletionDate'' ''Completion Date''
        @ part t ''PrimaryOutcomes'' ''Primary Outcomes''
        @ part t ''SecondaryOutcomes'' ''Secondary Outcomes'')"

section \<open>Building the index\<close>

text \<open>
  The only exception the repository's own code can raise on these paths is the
  \<open>IndexError\<close> of a list subscript. An exception raised inside the \<open>rank_bm25\<close>
  package travels through the caller unchanged; it is recorded by its class name.
\<close>

datatype error = IndexError | LibraryError string

text \<open>
  The attributes a \<open>TrialIndexer\<close> holds after \<open>build_index\<close> and writes to its three
  pickle files. \<open>'b\<close> is the type of the \<open>BM25Okapi\<close> object.
\<close>

record 'b TrialIndexer =
  trials :: "trial list"
  bm25 :: 'b
  tokenized_corpus :: "string list list"

text \<open>
  \<open>TrialIndexer.build_index\<close>. The records read by \<open>load_trials\<close> are the argument
  \<open>loaded\<close>. The class \<open>BM25Okapi\<close> belongs to the package \<open>rank_bm25\<close>, which is not part
  of the repository: its constructor is the parameter \<open>BM25Okapi\<close>, which returns the
  index object or the class name of the exception it raised. Printing, timing and the
  writing of the pickle files are left out.
\<close>

definition build_index ::
  "(string list list \<Rightarrow> string + 'b) \<Rightarrow> trial list \<Rightarrow> error + 'b TrialIndexer" where
  "build_index BM25Okapi loaded =
     (let corpus = map create_trial_text loaded;
          tokenized = map TrialIndexer_tokenize corpus
      in case BM25Okapi tokenized of
           Inl exn \<Rightarrow> Inl (LibraryError exn)
         | Inr b \<Rightarrow> Inr \<lparr>trials = loaded, bm25 = b, tokenized_corpus = tokenized\<rparr>)"

section \<open>The chatbot\<close>

record stats =
  total_queries :: nat
  total_retrieval_time :: real
  total_api_time :: real
  total_time :: real

text \<open>
  \<open>RAGChatbot.__init__\<close> reads back the three pickle files and starts the counters at
  zero, so a chatbot has the indexer's three attributes and \<open>stats\<close>.
\<close>

record 'b RAGChatbot = "'b TrialIndexer" +
  stats :: stats

definition RAGChatbot_init :: "'b TrialIndexer \<Rightarrow> 'b RAGChatbot" where
  "RAGChatbot_init saved =
     \<lparr>trials = trials saved, bm25 = bm25 saved, tokenized_corpus = tokenized_corpus saved,
      stats = \<lparr>total_queries = 0, total_retrieval_time = 0, total_api_time = 0,
               total_time = 0\<rparr>\<rparr>"

text \<open>
  \<open>sorted(xs, key=key, reverse=True)\<close>: CPython reverses the list, sorts it with its
  stable ascending sort and reverses the result, so that elements with equal keys keep
  their original order. \<^const>\<open>sort_key\<close> is a stable ascending sort.
\<close>

definition sorted_reverse :: "('a \<Rightarrow> 'k::linorder) \<Rightarrow> 'a list \<Rightarrow> 'a list" where
  "sorted_reverse key xs = rev (sort_key key (rev xs))"

text \<open>
  The slice \<open>xs[:n]\<close>: the first \<open>n\<close> elements, and for a negative \<open>n\<close> all but the
  last \<open>-n\<close>.
\<close>

definition slice_to :: "int \<Rightarrow> 'a list \<Rightarrow> 'a list" where
  "slice_to n xs = (if 0 \<le> n then take (nat n) xs else take (length xs - nat (- n)) xs)"

record trial_info =
  trial :: trial
  score :: real
  index :: nat

text \<open>
  The loop that builds the result: \<open>self.trials[idx]\<close> raises \<open>IndexError\<close> when \<open>idx\<close>
  is not a position of \<open>self.trials\<close> (\<open>idx\<close> comes from a \<open>range\<close> and is never
  negative).
\<close>

fun build_results :: "trial list \<Rightarrow> real list \<Rightarrow> nat list \<Rightarrow> error + trial_info list" where
  "build_results ts scores [] = Inr []"
| "build_results ts scores (idx # rest) =
     (if idx < length ts then
        (case build_results ts scores rest of
           Inl e \<Rightarrow> Inl e
         | Inr relevant \<Rightarrow>
             Inr (\<lparr>trial = ts ! idx, score = scores ! idx, index = idx\<rparr> # relevant))
      else Inl IndexError)"

text \<open>
  The line \<open>sorted(range(len(scores)), key=lambda i: scores[i], reverse=True)[:n_results]\<close>.
\<close>

definition top_n_indices :: "real list \<Rightarrow> int \<Rightarrow> nat list" where
  "top_n_indices scores n_results =
     slice_to n_results (sorted_reverse (\<lambda>i. scores ! i) [0..<length scores])"

text \<open>
  \<open>RAGChatbot.retrieve_relevant_trials\<close>, first component of its result (the second is
  the measured time). \<open>get_scores\<close> is the method of the \<open>BM25Okapi\<close> object, a
  parameter like its constructor; the scores are floating-point numbers, modelled as
  reals. Every index in \<open>top_n_indices\<close> is below \<open>len(scores)\<close>, so \<open>scores[idx]\<close> is
  always in range.
\<close>

definition retrieve_relevant_trials ::
  "('b \<Rightarrow> string list \<Rightarrow> real list) \<Rightarrow> 'b RAGChatbot \<Rightarrow> string \<Rightarrow> int
     \<Rightarrow> error + trial_info list" where
  "retrieve_relevant_trials get_scores self query n_results =
     (let tokenized_query = RAGChatbot_tokenize query;
          scores = get_scores (bm25 self) tokenized_query
      in build_results (trials self) scores (top_n_indices scores n_results))"

text \<open>The default value of the parameter \<open>n_results\<close>.\<close>

definition n_results_default :: int where
  "n_results_default = 10"

text \<open>
  The (position, score) pairs of a result, in order: what the specification calls the
  \<open>QueryResult\<close>.
\<close>

definition query_result ::
  "('b \<Rightarrow> string list \<Rightarrow> real list) \<Rightarrow> 'b RAGChatbot \<Rightarrow> string \<Rightarrow> int
     \<Rightarrow> error + (nat \<times> real) list" where
  "query_result get_scores self query n_results =
     (case retrieve_relevant_trials get_scores self query n_results of
        Inl e \<Rightarrow> Inl e
      | Inr relevant_trials \<Rightarrow> Inr (map (\<lambda>item. (index item, score item)) relevant_trials))"

text \<open>\<open>trial.get(key, default)\<close> and the truth test \<open>if trial.get(key):\<close>.\<close>

definition get_or :: "trial \<Rightarrow> string \<Rightarrow> string \<Rightarrow> string" where
  "get_or t key dflt = (case t key of None \<Rightarrow> dflt | Some v \<Rightarrow> v)"

definition truthy :: "trial \<Rightarrow> string \<Rightarrow> bool" where
  "truthy t key = (case t key of None \<Rightarrow> False | Some v \<Rightarrow> v \<noteq> [])"

definition opt_line :: "trial \<Rightarrow> string \<Rightarrow> string \<Rightarrow> string" where
  "opt_line t key label =
     (if truthy t key then label @ '': '' @ get_or t key [] @ ''\<newline>'' else [])"

text \<open>The body of the loop of \<open>format_context\<close> for the \<open>i\<close>-th item (counted from 1).\<close>

definition format_trial :: "nat \<Rightarrow> trial_info \<Rightarrow> string" where
  "format_trial i item =
     (let t = trial item
      in ''\<newline>[Trial '' @ show_nat i @ '' - '' @ get_or t ''NCTId'' ''Unknown'' @ '']\<newline>''
         @ ''Title: '' @ get_or t ''BriefTitle'' ''N/A'' @ ''\<newline>''
         @ opt_line t ''OfficialTitle'' ''Official Title''
         @ ''Status: '' @ get_or t ''OverallStatus'' ''N/A'' @ ''\<newline>''
         @ ''Phase: '' @ get_or t ''Phase'' ''N/A'' @ ''\<newline>''
         @ ''Study Type: '' @ get_or t ''StudyType'' ''N/A'' @ ''\<newline>''
         @ ''Conditions: '' @ get_or t ''Conditions'' ''N/A'' @ ''\<newline>''
         @ opt_line t ''Interventions'' ''Interventions''
         @ (if truthy t ''EligibilityCriteria''
            then ''Eligibility (excerpt): '' @ take 500 (get_or t ''EligibilityCriteria'' [])
                 @ ''...\<newline>''
            else [])
         @ opt_line t ''HealthyVolunteers'' ''Healthy Volunteers''
         @ opt_line t ''Sex'' ''Sex''
         @ (if truthy t ''MinimumAge''
            then ''Age Range: '' @ get_or t ''MinimumAge'' ''N/A'' @ '' - ''
                 @ get_or t ''MaximumAge'' ''N/A'' @ ''\<newline>''
            else [])
         @ opt_line t ''USLocations'' ''Locations''
         @ opt_line t ''PrimaryContactEmail'' ''Contact Email''
         @ opt_line t ''PrimaryContactPhone'' ''Contact Phone''
         @ opt_line t ''StartDate'' ''Start Date'')"

definition format_context :: "trial_info list \<Rightarrow> string" where
  "format_context relevant_trials =
     (if relevant_trials = [] then ''No relevant clinical trials found.''
      else str_join ''\<newline>''
             (map (\<lambda>(i, item). format_trial i item)
                  (zip [1..<Suc (length relevant_trials)] relevant_trials)))"

text \<open>
  \<open>generate_answer\<close>, first component of its result. The chat-completion call of the
  language-model client is the parameter \<open>create\<close>: from the system prompt and the user
  prompt it returns the answer text, or the text of the exception it raised.
\<close>

definition system_prompt :: string where
  "system_prompt =
     ''You are a professional clinical trial information assistant. Your tasks:\<newline>''
     @ ''1. Answer questions based ONLY on the provided clinical trial data\<newline>''
     @ ''2. Always cite specific Trial IDs (NCTId) as sources\<newline>''
     @ ''3. If the provided data doesn't contain relevant information, clearly state ''
     @ [CHR 0x22] @ ''Based on the provided data, I cannot find relevant information''
     @ [CHR 0x22] @ ''\<newline>''
     @ ''4. Do not fabricate or speculate any information\<newline>''
     @ ''5. Use concise, professional language to answer\<newline>''
     @ ''6. If the question involves multiple trials, list all relevant trials with their IDs''"

definition user_prompt :: "string \<Rightarrow> string \<Rightarrow> string" where
  "user_prompt query context =
     ''Answer the question based on the following clinical trial data.\<newline>\<newline>''
     @ ''Clinical Trial Data:\<newline>'' @ context @ ''\<newline>\<newline>''
     @ ''User Question: '' @ query @ ''\<newline>\<newline>''
     @ ''Please provide an answer based on the above data and cite specific Trial IDs. ''
     @ ''If the data doesn't contain relevant information, please state it clearly.''"

definition generate_answer :: "(string \<Rightarrow> string \<Rightarrow> string + string) \<Rightarrow> string \<Rightarrow> string \<Rightarrow> string" where
  "generate_answer create query context =
     (case create system_prompt (user_prompt query context) of
        Inr content \<Rightarrow> content
      | Inl e \<Rightarrow> ''Sorry, error generating answer: '' @ e)"

text \<open>
  The three durations that one call of \<open>chat\<close> measures with \<open>time.time()\<close>; they are
  inputs of the model.
\<close>

record timing =
  retrieval_time :: real
  api_time :: real
  elapsed_time :: real

text \<open>
  A source citation. \<open>Score\<close> and \<open>Relevance\<close> are the numbers that the source prints
  with two decimals and one decimal.
\<close>

record source =
  NCTId :: string
  Title :: string
  Score :: real
  Relevance :: real

record chat_result =
  answer :: string
  sources :: "source list"
  timing :: timing
  "context" :: string

definition source_of :: "trial_info \<Rightarrow> source" where
  "source_of item =
     \<lparr>NCTId = get_or (trial item) ''NCTId'' ''Unknown'',
      Title = get_or (trial item) ''BriefTitle'' ''N/A'',
      Score = score item,
      Relevance = min (score item * 10) 100\<rparr>"

text \<open>
  \<open>RAGChatbot.chat\<close>: the dictionary it returns and the chatbot with its updated
  counters. It calls \<open>retrieve_relevant_trials(query)\<close> with one argument, so
  \<open>n_results\<close> takes its default.
\<close>

definition chat ::
  "('b \<Rightarrow> string list \<Rightarrow> real list) \<Rightarrow> (string \<Rightarrow> string \<Rightarrow> string + string) \<Rightarrow> timing
     \<Rightarrow> 'b RAGChatbot \<Rightarrow> string \<Rightarrow> error + chat_result \<times> 'b RAGChatbot" where
  "chat get_scores create measured self query =
     (case retrieve_relevant_trials get_scores self query n_results_default of
        Inl e \<Rightarrow> Inl e
      | Inr relevant_trials \<Rightarrow>
          (let ctx = format_context relevant_trials;
               ans = generate_answer create query ctx;
               st = stats self;
               self' = self\<lparr>stats :=
                 \<lparr>total_queries = total_queries st + 1,
                  total_retrieval_time = total_retrieval_time st + retrieval_time measured,
                  total_api_time = total_api_time st + api_time measured,
                  total_time = total_time st + elapsed_time measured\<rparr>\<rparr>
           in Inr (\<lparr>answer = ans, sources = map source_of relevant_trials,
                     timing = measured, context = ctx\<rparr>, self')))"

section \<open>The REST endpoint\<close>

text \<open>
  \<open>ChatRequest\<close> of api.py: \<open>query\<close> with 1 to 1000 characters, and the optional
  \<open>n_results\<close> between 1 and 20 (5 when the request leaves it out). A request that
  breaks a bound is refused with status 422 before the handler runs.
\<close>

record ChatRequest =
  query :: string
  n_results :: "int option"

definition valid_ChatRequest :: "ChatRequest \<Rightarrow> bool" where
  "valid_ChatRequest request =
     (1 \<le> length (query request) \<and> length (query request) \<le> 1000
      \<and> (case n_results request of None \<Rightarrow> True | Some n \<Rightarrow> 1 \<le> n \<and> n \<le> 20))"

datatype http_error = HTTP_422 | HTTP_500 | HTTP_503

text \<open>\<open>ChatResponse\<close> without its time stamp.\<close>

record ChatResponse =
  success :: bool
  response_query :: string
  response_answer :: string
  response_sources :: "source list"
  response_timing :: timing

text \<open>
  The handler of \<open>POST /chat\<close>. The global \<open>chatbot\<close> is \<open>None\<close> until start-up has
  loaded it; any exception of \<open>chatbot.chat\<close> becomes status 500.
\<close>

definition api_chat ::
  "('b \<Rightarrow> string list \<Rightarrow> real list) \<Rightarrow> (string \<Rightarrow> string \<Rightarrow> string + string) \<Rightarrow> timing
     \<Rightarrow> 'b RAGChatbot option \<Rightarrow> ChatRequest
     \<Rightarrow> http_error + ChatResponse \<times> 'b RAGChatbot" where
  "api_chat get_scores create measured chatbot request =
     (if \<not> valid_ChatRequest request then Inl HTTP_422
      else case chatbot of
             None \<Rightarrow> Inl HTTP_503
           | Some cb \<Rightarrow>
               (case chat get_scores create measured cb (query request) of
                  Inl e \<Rightarrow> Inl HTTP_500
                | Inr (result, cb') \<Rightarrow>
                    Inr (\<lparr>success = True, response_query = query request,
                          response_answer = answer result,
                          response_sources = sources result,
                          response_timing = timing result\<rparr>, cb')))"

section \<open>A small library for the closed examples\<close>

text \<open>
  The closed examples below need some index object and some scores for the example
  corpus. \<open>overlap_scores\<close> keeps the tokenized corpus as the index object and gives a
  document the number of query tokens that occur in it; \<open>accepting_index\<close> returns
  that index object. They are applied to the example corpus only and say nothing about
  the package \<open>rank_bm25\<close>; every general theorem is stated for an arbitrary
  constructor and scorer.
\<close>

definition overlap_scores :: "string list list \<Rightarrow> string list \<Rightarrow> real list" where
  "overlap_scores corpus q = map (\<lambda>doc. real (length (filter (\<lambda>w. w \<in> set doc) q))) corpus"

definition accepting_index :: "string list list \<Rightarrow> string + string list list" where
  "accepting_index corpus = Inr corpus"

definition example_trials :: "trial list" where
  "example_trials =
     [[''BriefTitle'' \<mapsto> ''PTSD trial adult''], [''BriefTitle'' \<mapsto> ''Cancer trial''],
      Map.empty]"

definition example_index :: "string list list TrialIndexer" where
  "example_index =
     \<lparr>trials = example_trials,
      bm25 = map (\<lambda>t. TrialIndexer_tokenize (create_trial_text t)) example_trials,
      tokenized_corpus =
        map (\<lambda>t. TrialIndexer_tokenize (create_trial_text t)) example_trials\<rparr>"

definition example_chatbot :: "string list list RAGChatbot" where
  "example_chatbot = RAGChatbot_init example_index"

definition example_create :: "string \<Rightarrow> string \<Rightarrow> string + string" where
  "example_create system user = Inr ''See the cited trials.''"

definition example_timing :: timing where
  "example_timing = \<lparr>retrieval_time = 0, api_time = 1, elapsed_time = 1\<rparr>"

section \<open>Facts about the characters and the string functions\<close>

lemma isalnum_not_isspace: "isalnum c \<Longrightarrow> \<not> isspace c"
  unfolding isalnum_def isspace_def Let_def by arith

lemma lower_char_idem: "lower_char (lower_char c) = lower_char c"
  unfolding lower_char_def Let_def by auto

lemma lower_char_space: "lower_char (CHR '' '') = CHR '' ''"
  unfolding lower_char_def Let_def by simp

lemma isspace_space: "isspace (CHR '' '')"
  unfolding isspace_def Let_def by simp

lemma lower_char_ascii: "is_ascii c \<Longrightarrow> is_ascii (lower_char c)"
  unfolding lower_char_def is_ascii_def Let_def by auto

lemma isalnum_ascii: "is_ascii c \<Longrightarrow> isalnum c = ascii_alnum c"
  unfolding isalnum_def ascii_alnum_def is_ascii_def Let_def by arith

lemma split_from_chars:
  "w \<in> set (split_from cur s) \<Longrightarrow> set w \<subseteq> set cur \<union> set s"
proof (induction s arbitrary: cur)
  case Nil
  then show ?case by (simp split: if_splits)
next
  case (Cons c cs)
  then show ?case by (fastforce split: if_splits)
qed

lemma str_split_chars: "w \<in> set (str_split s) \<Longrightarrow> set w \<subseteq> set s"
  using split_from_chars [of w "[]" s] by (simp add: str_split_def)

lemma split_from_run:
  "\<forall>c \<in> set t. \<not> isspace c \<Longrightarrow> split_from cur (t @ rest) = split_from (cur @ t) rest"
  by (induction t arbitrary: cur) simp_all

lemma split_from_join:
  "\<forall>t \<in> set ts. t \<noteq> [] \<and> (\<forall>c \<in> set t. \<not> isspace c)
     \<Longrightarrow> split_from [] (str_join '' '' ts) = ts"
proof (induction "'' ''" ts rule: str_join.induct)
  case 1
  then show ?case by simp
next
  case (2 x)
  then show ?case using split_from_run [of x "[]" "[]"] by simp
next
  case (3 x y ys)
  have "split_from [] (x @ '' '' @ str_join '' '' (y # ys))
          = split_from x ('' '' @ str_join '' '' (y # ys))"
    using 3 split_from_run [of x "[]"] by simp
  also have "\<dots> = x # split_from [] (str_join '' '' (y # ys))"
    using 3 by (simp add: isspace_space)
  finally show ?case using 3 by simp
qed

lemma str_lower_join:
  "\<forall>t \<in> set ts. \<forall>c \<in> set t. lower_char c = c
     \<Longrightarrow> str_lower (str_join '' '' ts) = str_join '' '' ts"
proof (induction "'' ''" ts rule: str_join.induct)
  case 1
  then show ?case by (simp add: str_lower_def)
next
  case (2 x)
  then show ?case by (simp add: str_lower_def map_idI)
next
  case (3 x y ys)
  then show ?case by (simp add: str_lower_def lower_char_space map_idI)
qed

lemma tokenize_token:
  assumes "t \<in> set (TrialIndexer_tokenize text)"
  shows "t \<noteq> []" and "\<forall>c \<in> set t. isalnum c \<and> lower_char c = c \<and> \<not> isspace c"
proof -
  from assms obtain w where w: "w \<in> set (str_split (str_lower text))"
    and t: "t = filter isalnum w" and ne: "t \<noteq> []"
    by (auto simp: TrialIndexer_tokenize_def)
  show "t \<noteq> []" by (rule ne)
  show "\<forall>c \<in> set t. isalnum c \<and> lower_char c = c \<and> \<not> isspace c"
  proof
    fix c assume c: "c \<in> set t"
    then have "isalnum c" and "c \<in> set w" using t by auto
    then have "c \<in> set (str_lower text)" using str_split_chars [OF w] by auto
    then obtain d where "c = lower_char d" by (auto simp: str_lower_def)
    then have "lower_char c = c" by (simp add: lower_char_idem)
    with \<open>isalnum c\<close> show "isalnum c \<and> lower_char c = c \<and> \<not> isspace c"
      by (simp add: isalnum_not_isspace)
  qed
qed

lemma tokenize_same: "RAGChatbot_tokenize text = TrialIndexer_tokenize text"
  by (simp add: RAGChatbot_tokenize_def TrialIndexer_tokenize_def)

lemma tokenize_fixed:
  assumes "\<forall>t \<in> set ts. t \<noteq> [] \<and> (\<forall>c \<in> set t. isalnum c \<and> lower_char c = c \<and> \<not> isspace c)"
  shows "TrialIndexer_tokenize (str_join '' '' ts) = ts"
proof -
  have l: "str_lower (str_join '' '' ts) = str_join '' '' ts"
    using assms by (intro str_lower_join) blast
  have s: "str_split (str_join '' '' ts) = ts"
    unfolding str_split_def using assms by (intro split_from_join) blast
  have m: "map (\<lambda>token. filter isalnum token) ts = ts"
    using assms by (intro map_idI) (simp add: filter_id_conv)
  have f: "filter (\<lambda>t. t \<noteq> []) ts = ts"
    using assms by (simp add: filter_id_conv)
  show ?thesis by (simp add: TrialIndexer_tokenize_def l s m f)
qed

lemma tokenize_ascii:
  assumes "\<forall>c \<in> set text. is_ascii c"
  shows "TrialIndexer_tokenize text = tokenize_spec text"
proof -
  have "map (\<lambda>token. filter isalnum token) (str_split (str_lower text))
          = map (filter ascii_alnum) (str_split (str_lower text))"
  proof (rule map_cong [OF refl], rule filter_cong [OF refl])
    fix w c assume "w \<in> set (str_split (str_lower text))" and "c \<in> set w"
    then have "c \<in> set (str_lower text)" using str_split_chars by blast
    then have "is_ascii c" using assms by (auto simp: str_lower_def lower_char_ascii)
    then show "isalnum c = ascii_alnum c" by (rule isalnum_ascii)
  qed
  then show ?thesis
    unfolding TrialIndexer_tokenize_def tokenize_spec_def Let_def by (rule arg_cong)
qed

section \<open>Facts about the ranking\<close>

lemma stable_sorted_wrt:
  "sorted (map f zs) \<Longrightarrow> (\<And>k. sorted_wrt R (filter (\<lambda>y. f y = k) zs))
     \<Longrightarrow> sorted_wrt (\<lambda>a b. f a < f b \<or> (f a = f b \<and> R a b)) zs"
proof (induction zs)
  case Nil
  then show ?case by simp
next
  case (Cons a zs)
  have tail: "sorted_wrt (\<lambda>a b. f a < f b \<or> (f a = f b \<and> R a b)) zs"
  proof (rule Cons.IH)
    show "sorted (map f zs)" using Cons.prems(1) by simp
    show "sorted_wrt R (filter (\<lambda>y. f y = k) zs)" for k
      using Cons.prems(2) [of k] by (simp split: if_splits)
  qed
  have head: "f a < f b \<or> (f a = f b \<and> R a b)" if b: "b \<in> set zs" for b
  proof (cases "f a = f b")
    case True
    have "sorted_wrt R (a # filter (\<lambda>y. f y = f a) zs)"
      using Cons.prems(2) [of "f a"] by simp
    then have "R a b" using b True by simp
    with True show ?thesis by simp
  next
    case False
    moreover have "f a \<le> f b" using Cons.prems(1) b by simp
    ultimately show ?thesis by simp
  qed
  show ?case using tail head by simp
qed

lemma sorted_reverse_order:
  assumes "sorted_wrt R xs"
  shows "sorted_wrt (\<lambda>a b. key b < key a \<or> (key a = key b \<and> R a b)) (sorted_reverse key xs)"
proof -
  let ?zs = "sort_key key (rev xs)"
  have "sorted_wrt (\<lambda>a b. R b a) (filter (\<lambda>y. key y = k) ?zs)" for k
  proof -
    have "sorted_wrt R (filter (\<lambda>y. key y = k) xs)"
      using assms by (rule sorted_wrt_filter)
    then have "sorted_wrt (\<lambda>a b. R b a) (rev (filter (\<lambda>y. key y = k) xs))"
      by (simp add: sorted_wrt_rev)
    then show ?thesis by (simp add: sort_key_stable rev_filter)
  qed
  then have "sorted_wrt (\<lambda>a b. key a < key b \<or> (key a = key b \<and> R b a)) ?zs"
    by (intro stable_sorted_wrt) simp_all
  then have "sorted_wrt (\<lambda>a b. key b < key a \<or> (key b = key a \<and> R a b)) (rev ?zs)"
    by (simp add: sorted_wrt_rev)
  then show ?thesis
    unfolding sorted_reverse_def by (rule sorted_wrt_mono_rel [rotated]) auto
qed

lemma set_sorted_reverse: "set (sorted_reverse key xs) = set xs"
  by (simp add: sorted_reverse_def)

lemma length_sorted_reverse: "length (sorted_reverse key xs) = length xs"
  by (simp add: sorted_reverse_def)

lemma sorted_wrt_slice_to: "sorted_wrt R xs \<Longrightarrow> sorted_wrt R (slice_to n xs)"
  by (simp add: slice_to_def)

lemma set_slice_to: "set (slice_to n xs) \<subseteq> set xs"
  by (auto simp: slice_to_def dest: in_set_takeD)

lemma length_slice_to:
  "length (slice_to n xs) = (if 0 \<le> n then min (nat n) (length xs) else length xs - nat (- n))"
  by (simp add: slice_to_def min.commute)

lemma build_results_ok:
  "\<forall>i \<in> set idxs. i < length ts
     \<Longrightarrow> build_results ts scores idxs
           = Inr (map (\<lambda>idx. \<lparr>trial = ts ! idx, score = scores ! idx, index = idx\<rparr>) idxs)"
  by (induction idxs) simp_all

lemma build_results_Inr:
  "build_results ts scores idxs = Inr r
     \<Longrightarrow> (\<forall>i \<in> set idxs. i < length ts)
         \<and> r = map (\<lambda>idx. \<lparr>trial = ts ! idx, score = scores ! idx, index = idx\<rparr>) idxs"
  by (induction idxs arbitrary: r) (auto split: if_splits sum.splits)

lemma top_n_indices_sorted:
  "sorted_wrt (\<lambda>i j. scores ! j < scores ! i \<or> (scores ! i = scores ! j \<and> i < j))
     (top_n_indices scores n)"
  unfolding top_n_indices_def
  by (intro sorted_wrt_slice_to sorted_reverse_order) simp

lemma top_n_indices_range: "i \<in> set (top_n_indices scores n) \<Longrightarrow> i < length scores"
  using set_slice_to [of n "sorted_reverse (\<lambda>i. scores ! i) [0..<length scores]"]
  by (auto simp: top_n_indices_def set_sorted_reverse)


lemma sorted_reverse_equal_keys:
  assumes "\<forall>i < n. \<forall>j < n. key i = key j"
  shows "sorted_reverse key [0..<n] = [0..<n]"
proof -
  let ?ys = "sorted_reverse key [0..<n]"
  have "sorted_wrt (\<lambda>a b. key b < key a \<or> (key a = key b \<and> a < b)) ?ys"
    by (rule sorted_reverse_order) simp
  moreover have "\<And>a b. a \<in> set ?ys \<Longrightarrow> b \<in> set ?ys
      \<Longrightarrow> key b < key a \<or> (key a = key b \<and> a < b) \<Longrightarrow> a < b"
  proof -
    fix a b assume "a \<in> set ?ys" "b \<in> set ?ys"
    then have "a < n" "b < n" by (simp_all add: set_sorted_reverse)
    then have "key a = key b" using assms by blast
    moreover assume "key b < key a \<or> (key a = key b \<and> a < b)"
    ultimately show "a < b" by simp
  qed
  ultimately have "sorted_wrt (<) ?ys"
    by (rule sorted_wrt_mono_rel [rotated])
  then have "sorted ?ys" and "distinct ?ys" by (simp_all add: strict_sorted_iff)
  moreover have "set ?ys = set [0..<n]" by (rule set_sorted_reverse)
  ultimately show ?thesis
    by (intro sorted_distinct_set_unique) simp_all
qed

lemma top_n_indices_length:
  "length (top_n_indices scores n)
     = (if 0 \<le> n then min (nat n) (length scores) else length scores - nat (- n))"
  by (simp add: top_n_indices_def length_slice_to length_sorted_reverse)

lemma distinct_sorted_reverse: "distinct xs \<Longrightarrow> distinct (sorted_reverse key xs)"
  by (simp add: sorted_reverse_def)

lemma distinct_slice_to: "distinct xs \<Longrightarrow> distinct (slice_to n xs)"
  by (simp add: slice_to_def)

lemma top_n_indices_distinct: "distinct (top_n_indices scores n)"
  unfolding top_n_indices_def
  by (intro distinct_slice_to distinct_sorted_reverse) simp

lemma slice_to_negative:
  assumes "n < 0"
  shows "slice_to n xs = take (nat (int (length xs) + n)) (slice_to (int (length xs)) xs)"
proof -
  have "nat (int (length xs) + n) = length xs - nat (- n)"
    using assms by arith
  then show ?thesis
    using assms by (simp add: slice_to_def)
qed

lemma top_n_indices_negative:
  "n < 0 \<Longrightarrow> top_n_indices scores n
     = take (nat (int (length scores) + n)) (top_n_indices scores (int (length scores)))"
  using slice_to_negative [of n "sorted_reverse (\<lambda>i. scores ! i) [0..<length scores]"]
  by (simp add: top_n_indices_def length_sorted_reverse)

lemma top_n_indices_zero: "top_n_indices scores 0 = []"
  by (simp add: top_n_indices_def slice_to_def)

lemma retrieve_Inr:
  assumes "retrieve_relevant_trials get_scores self q n = Inr r"
  shows "r = map (\<lambda>idx. \<lparr>trial = trials self ! idx,
                         score = get_scores (bm25 self) (RAGChatbot_tokenize q) ! idx,
                         index = idx\<rparr>)
               (top_n_indices (get_scores (bm25 self) (RAGChatbot_tokenize q)) n)"
    and "\<forall>i \<in> set (top_n_indices (get_scores (bm25 self) (RAGChatbot_tokenize q)) n).
           i < length (trials self)"
proof -
  let ?scores = "get_scores (bm25 self) (RAGChatbot_tokenize q)"
  have "build_results (trials self) ?scores (top_n_indices ?scores n) = Inr r"
    using assms by (simp add: retrieve_relevant_trials_def Let_def)
  from build_results_Inr [OF this]
  show "r = map (\<lambda>idx. \<lparr>trial = trials self ! idx, score = ?scores ! idx, index = idx\<rparr>)
               (top_n_indices ?scores n)"
    and "\<forall>i \<in> set (top_n_indices ?scores n). i < length (trials self)"
    by blast+
qed

lemma retrieve_ok:
  assumes "length (get_scores (bm25 self) (RAGChatbot_tokenize q)) \<le> length (trials self)"
  shows "retrieve_relevant_trials get_scores self q n
     = Inr (map (\<lambda>idx. \<lparr>trial = trials self ! idx,
                         score = get_scores (bm25 self) (RAGChatbot_tokenize q) ! idx,
                         index = idx\<rparr>)
               (top_n_indices (get_scores (bm25 self) (RAGChatbot_tokenize q)) n))"
proof -
  let ?scores = "get_scores (bm25 self) (RAGChatbot_tokenize q)"
  have "\<forall>i \<in> set (top_n_indices ?scores n). i < length (trials self)"
  proof
    fix i assume "i \<in> set (top_n_indices ?scores n)"
    then have "i < length ?scores" by (rule top_n_indices_range)
    with assms show "i < length (trials self)" by simp
  qed
  then have "build_results (trials self) ?scores (top_n_indices ?scores n)
     = Inr (map (\<lambda>idx. \<lparr>trial = trials self ! idx, score = ?scores ! idx, index = idx\<rparr>)
               (top_n_indices ?scores n))"
    by (rule build_results_ok)
  then show ?thesis
    by (simp add: retrieve_relevant_trials_def Let_def)
qed

lemma take_upt_min: "take m [0..<n] = [0..<min m n]"
proof (cases "m \<le> n")
  case True
  then show ?thesis by (simp add: min_def)
next
  case False
  then show ?thesis by (simp add: min_def)
qed

lemma top_n_indices_equal_scores:
  assumes "\<forall>i < length scores. \<forall>j < length scores. scores ! i = scores ! j" and "0 \<le> k"
  shows "top_n_indices scores k = [0..<min (nat k) (length scores)]"
proof -
  have "sorted_reverse (\<lambda>i. scores ! i) [0..<length scores] = [0..<length scores]"
    using assms(1) by (rule sorted_reverse_equal_keys)
  then have "top_n_indices scores k = take (nat k) [0..<length scores]"
    using assms(2) by (simp only: top_n_indices_def slice_to_def if_True)
  then show ?thesis by (simp only: take_upt_min)
qed

lemma map_index_items:
  "map index (map (\<lambda>idx. \<lparr>trial = f idx, score = g idx, index = idx\<rparr>) idxs) = idxs"
  by (induction idxs) simp_all

lemma list_all_items:
  "list_all (\<lambda>a. score a = g (index a)) (map (\<lambda>idx. \<lparr>trial = f idx, score = g idx, index = idx\<rparr>) idxs)"
  by (induction idxs) simp_all

section \<open>Claims about the tokenizers\<close>

text \<open>
  C5, as the code has it. Both tokenizers lower-case the text, split it on whitespace
  runs, keep in every piece the characters for which \<open>str.isalnum\<close> holds (not only the
  ASCII letters and digits) and drop the pieces that became empty; pieces keep their
  order and duplicates stay. Every token is non-empty and consists of alphanumeric
  characters that lower-casing leaves alone. On text made of ASCII characters only the
  result is the one the specification describes.
\<close>

theorem tokenize_keeps_alnum:
  "TrialIndexer_tokenize text
     = filter (\<lambda>t. t \<noteq> []) (map (filter isalnum) (str_split (str_lower text)))
   \<and> RAGChatbot_tokenize text
     = filter (\<lambda>t. t \<noteq> []) (map (filter isalnum) (str_split (str_lower text)))
   \<and> (\<forall>t \<in> set (TrialIndexer_tokenize text).
         t \<noteq> [] \<and> (\<forall>c \<in> set t. isalnum c \<and> lower_char c = c))
   \<and> ((\<forall>c \<in> set text. is_ascii c) \<longrightarrow> TrialIndexer_tokenize text = tokenize_spec text)"
proof (intro conjI)
  show "TrialIndexer_tokenize text
          = filter (\<lambda>t. t \<noteq> []) (map (filter isalnum) (str_split (str_lower text)))"
    by (simp add: TrialIndexer_tokenize_def)
  show "RAGChatbot_tokenize text
          = filter (\<lambda>t. t \<noteq> []) (map (filter isalnum) (str_split (str_lower text)))"
    by (simp add: RAGChatbot_tokenize_def)
  show "\<forall>t \<in> set (TrialIndexer_tokenize text).
          t \<noteq> [] \<and> (\<forall>c \<in> set t. isalnum c \<and> lower_char c = c)"
    using tokenize_token by blast
  show "(\<forall>c \<in> set text. is_ascii c) \<longrightarrow> TrialIndexer_tokenize text = tokenize_spec text"
    using tokenize_ascii by blast
qed

theorem tokenize_keeps_alnum_witness:
  "list_all is_ascii ''Phase 2: PTSD (adults)''
   \<and> TrialIndexer_tokenize ''Phase 2: PTSD (adults)'' = [''phase'', ''2'', ''ptsd'', ''adults'']
   \<and> tokenize_spec ''Phase 2: PTSD (adults)'' = [''phase'', ''2'', ''ptsd'', ''adults'']
   \<and> list_all (\<lambda>t. t \<noteq> [] \<and> list_all (\<lambda>c. isalnum c \<and> lower_char c = c) t)
         (TrialIndexer_tokenize ''Phase 2: PTSD (adults)'')"
proof -
  let ?x = "''Phase 2: PTSD (adults)''"
  have a: "list_all is_ascii ?x"
    by code_simp
  have v: "TrialIndexer_tokenize ?x = [''phase'', ''2'', ''ptsd'', ''adults'']"
    by code_simp
  have s: "(\<forall>c \<in> set ?x. is_ascii c) \<longrightarrow> TrialIndexer_tokenize ?x = tokenize_spec ?x"
    and t: "\<forall>t \<in> set (TrialIndexer_tokenize ?x).
              t \<noteq> [] \<and> (\<forall>c \<in> set t. isalnum c \<and> lower_char c = c)"
    using tokenize_keeps_alnum [of ?x] by blast+
  from a have "\<forall>c \<in> set ?x. is_ascii c" by (simp only: list_all_iff)
  with s have "TrialIndexer_tokenize ?x = tokenize_spec ?x" by (rule mp)
  with v have e: "tokenize_spec ?x = [''phase'', ''2'', ''ptsd'', ''adults'']"
    by (simp only:)
  from t have t': "list_all (\<lambda>t. t \<noteq> [] \<and> list_all (\<lambda>c. isalnum c \<and> lower_char c = c) t)
         (TrialIndexer_tokenize ?x)"
    by (simp only: list_all_iff)
  show ?thesis
    by (intro conjI) (rule a, rule v, rule e, rule t')
qed

text \<open>
  C5, as the specification states it, fails on a letter outside ASCII: the code keeps
  the e with acute accent (code point 233) of the word, which is not an ASCII
  letter.
\<close>

theorem tokenize_ascii_counterexample:
  "TrialIndexer_tokenize (''Caf'' @ [CHR 0xE9] @ '' au lait!'')
     = [''caf'' @ [CHR 0xE9], ''au'', ''lait'']
   \<and> RAGChatbot_tokenize (''Caf'' @ [CHR 0xE9] @ '' au lait!'')
     = [''caf'' @ [CHR 0xE9], ''au'', ''lait'']
   \<and> tokenize_spec (''Caf'' @ [CHR 0xE9] @ '' au lait!'') = [''caf'', ''au'', ''lait'']
   \<and> \<not> ascii_alnum (CHR 0xE9)"
  by code_simp

text \<open>
  C6. The tokenizer of the indexing path and the tokenizer of the query path are the
  same function: they return the same tokens for every text.
\<close>

theorem tokenizers_agree: "RAGChatbot_tokenize = TrialIndexer_tokenize"
  by (rule ext) (simp add: RAGChatbot_tokenize_def TrialIndexer_tokenize_def)

text \<open>
  C8. Joining the tokens of a text with single spaces and tokenizing the result gives
  the same tokens again, for either tokenizer.
\<close>

theorem tokenize_join_fixed_point:
  "TrialIndexer_tokenize (str_join '' '' (TrialIndexer_tokenize x)) = TrialIndexer_tokenize x
   \<and> RAGChatbot_tokenize (str_join '' '' (RAGChatbot_tokenize x)) = RAGChatbot_tokenize x"
proof -
  have "TrialIndexer_tokenize (str_join '' '' (TrialIndexer_tokenize x)) = TrialIndexer_tokenize x"
    by (rule tokenize_fixed) (use tokenize_token in blast)
  then show ?thesis by (simp add: tokenize_same)
qed

section \<open>The example, evaluated\<close>

lemma example_scores:
  "overlap_scores (bm25 example_chatbot) (RAGChatbot_tokenize ''PTSD trial?'') = [2, 1, 0]"
  by code_simp

lemma example_scores_empty:
  "overlap_scores (bm25 example_chatbot) [] = [0, 0, 0]"
  by code_simp

lemma example_length: "length (trials example_chatbot) = 3"
  by code_simp

section \<open>Claims about retrieval\<close>

text \<open>
  C1. When the scorer returns one score per trial, \<open>retrieve_relevant_trials\<close> returns
  a result for every query text and every \<open>n_results\<close>; the result is ordered by
  score descending and, among equal scores, by corpus position ascending; so an item
  with a larger score stands before an item with a smaller one. Every item carries the
  score of its position.
\<close>

theorem retrieve_ranked:
  assumes "length (get_scores (bm25 self) (RAGChatbot_tokenize q)) = length (trials self)"
  shows "\<exists>r. retrieve_relevant_trials get_scores self q k = Inr r
           \<and> sorted_wrt (\<lambda>a b. score b < score a \<or> (score a = score b \<and> index a < index b)) r
           \<and> (\<forall>i j. i < length r \<and> j < length r \<and> score (r ! j) < score (r ! i) \<longrightarrow> i < j)
           \<and> list_all (\<lambda>a. index a < length (trials self)
                  \<and> score a = get_scores (bm25 self) (RAGChatbot_tokenize q) ! index a) r"
proof -
  let ?scores = "get_scores (bm25 self) (RAGChatbot_tokenize q)"
  let ?item = "\<lambda>idx. \<lparr>trial = trials self ! idx, score = ?scores ! idx, index = idx\<rparr>"
  let ?r = "map ?item (top_n_indices ?scores k)"
  let ?before = "\<lambda>a b. score b < score a \<or> (score a = score b \<and> index a < index b)"
  have ret: "retrieve_relevant_trials get_scores self q k = Inr ?r"
    using assms by (intro retrieve_ok) simp
  have ord: "sorted_wrt ?before ?r"
    using top_n_indices_sorted [of ?scores k] by (simp add: sorted_wrt_map)
  have strict: "i < j" if "i < length ?r" "j < length ?r" "score (?r ! j) < score (?r ! i)" for i j
  proof (rule ccontr)
    assume "\<not> i < j"
    then consider "j = i" | "j < i" by arith
    then show False
    proof cases
      case 1
      with that show False by simp
    next
      case 2
      from sorted_wrt_nth_less [OF ord 2 that(1)] that(3) show False by auto
    qed
  qed
  have each: "list_all (\<lambda>a. index a < length (trials self) \<and> score a = ?scores ! index a) ?r"
    using top_n_indices_range [of _ ?scores k] assms by (simp add: list_all_iff)
  show ?thesis
    using ret ord strict each by blast
qed

theorem retrieve_ranked_witness:
  "length (overlap_scores (bm25 example_chatbot) (RAGChatbot_tokenize ''PTSD trial?''))
     = length (trials example_chatbot)
   \<and> (\<exists>r. retrieve_relevant_trials overlap_scores example_chatbot ''PTSD trial?'' 2 = Inr r
           \<and> sorted_wrt (\<lambda>a b. score b < score a \<or> (score a = score b \<and> index a < index b)) r
           \<and> (\<forall>i j. i < length r \<and> j < length r \<and> score (r ! j) < score (r ! i) \<longrightarrow> i < j)
           \<and> list_all (\<lambda>a. index a < length (trials example_chatbot)
                  \<and> score a = overlap_scores (bm25 example_chatbot)
                                (RAGChatbot_tokenize ''PTSD trial?'') ! index a) r)"
proof -
  have h: "length (overlap_scores (bm25 example_chatbot) (RAGChatbot_tokenize ''PTSD trial?''))
             = length (trials example_chatbot)"
    by (simp only: example_scores example_length) simp
  from h retrieve_ranked [of overlap_scores example_chatbot "''PTSD trial?''" 2, OF h]
  show ?thesis by (rule conjI)
qed

text \<open>
  C2, as the code has it. There is no check of \<open>n_results\<close> and no error for it: with
  one score per trial, \<open>n_results = 0\<close> gives the empty result, and a negative
  \<open>n_results\<close> gives the full ranking without its last \<open>-n_results\<close> items (the slice
  \<open>[:n_results]\<close>), which is empty once \<open>-n_results\<close> reaches the number of trials.
\<close>

theorem retrieve_nonpositive:
  assumes "length (get_scores (bm25 self) (RAGChatbot_tokenize q)) = length (trials self)"
  shows "retrieve_relevant_trials get_scores self q 0 = Inr []
         \<and> (\<exists>full. retrieve_relevant_trials get_scores self q (int (length (trials self)))
                      = Inr full
                \<and> length full = length (trials self)
                \<and> (\<forall>k < 0. retrieve_relevant_trials get_scores self q k
                             = Inr (take (nat (int (length (trials self)) + k)) full)))"
proof -
  let ?scores = "get_scores (bm25 self) (RAGChatbot_tokenize q)"
  let ?item = "\<lambda>idx. \<lparr>trial = trials self ! idx, score = ?scores ! idx, index = idx\<rparr>"
  let ?n = "int (length (trials self))"
  have ret: "retrieve_relevant_trials get_scores self q k = Inr (map ?item (top_n_indices ?scores k))"
    for k
    using assms by (intro retrieve_ok) simp
  have zero: "retrieve_relevant_trials get_scores self q 0 = Inr []"
    by (simp add: ret top_n_indices_zero)
  have len: "length (map ?item (top_n_indices ?scores ?n)) = length (trials self)"
    using assms by (simp add: top_n_indices_length)
  have neg: "retrieve_relevant_trials get_scores self q k
               = Inr (take (nat (?n + k)) (map ?item (top_n_indices ?scores ?n)))" if "k < 0" for k
    using top_n_indices_negative [OF that, of ?scores] assms by (simp add: ret take_map)
  show ?thesis
    using zero ret [of ?n] len neg by blast
qed

theorem retrieve_nonpositive_witness:
  "length (overlap_scores (bm25 example_chatbot) (RAGChatbot_tokenize ''PTSD trial?''))
     = length (trials example_chatbot)
   \<and> retrieve_relevant_trials overlap_scores example_chatbot ''PTSD trial?'' 0 = Inr []
   \<and> (\<exists>full. retrieve_relevant_trials overlap_scores example_chatbot ''PTSD trial?''
                 (int (length (trials example_chatbot))) = Inr full
          \<and> length full = length (trials example_chatbot)
          \<and> (\<forall>k < 0. retrieve_relevant_trials overlap_scores example_chatbot ''PTSD trial?'' k
                       = Inr (take (nat (int (length (trials example_chatbot)) + k)) full)))"
proof -
  have h: "length (overlap_scores (bm25 example_chatbot) (RAGChatbot_tokenize ''PTSD trial?''))
             = length (trials example_chatbot)"
    by (simp only: example_scores example_length) simp
  from h retrieve_nonpositive [of overlap_scores example_chatbot "''PTSD trial?''", OF h]
  show ?thesis by (rule conjI)
qed

text \<open>
  C2, as the specification states it, fails: for \<open>n_results = 0\<close> and for
  \<open>n_results = -1\<close> the query on the example returns a result list, not an error.
\<close>

theorem retrieve_nonpositive_counterexample:
  "query_result overlap_scores example_chatbot ''PTSD trial?'' 0 = Inr []
   \<and> query_result overlap_scores example_chatbot ''PTSD trial?'' (- 1) = Inr [(0, 2), (1, 1)]"
  by code_simp

text \<open>
  C3, as the code has it. A query without tokens is not treated apart: with one score
  per trial and \<open>n_results > 0\<close> the result has \<open>min(n_results, number of trials)\<close>
  items, each with the score that the scorer gives its position for the empty token
  list; when these scores are all equal, the items are the first positions in order.
\<close>

theorem retrieve_empty_query:
  assumes "RAGChatbot_tokenize q = []"
    and "length (get_scores (bm25 self) []) = length (trials self)"
    and "0 < k"
  shows "\<exists>r. retrieve_relevant_trials get_scores self q k = Inr r
           \<and> length r = min (nat k) (length (trials self))
           \<and> list_all (\<lambda>a. score a = get_scores (bm25 self) [] ! index a) r
           \<and> ((\<forall>i < length (trials self). \<forall>j < length (trials self).
                  get_scores (bm25 self) [] ! i = get_scores (bm25 self) [] ! j)
                \<longrightarrow> map index r = [0..<min (nat k) (length (trials self))])"
proof -
  define scores where "scores = get_scores (bm25 self) []"
  define r where
    "r = map (\<lambda>idx. \<lparr>trial = trials self ! idx, score = scores ! idx, index = idx\<rparr>)
           (top_n_indices scores k)"
  have n: "length scores = length (trials self)"
    using assms(2) by (simp only: scores_def)
  have "length (get_scores (bm25 self) (RAGChatbot_tokenize q)) \<le> length (trials self)"
    using assms(1,2) by simp
  from retrieve_ok [of get_scores self q k, OF this]
  have ret: "retrieve_relevant_trials get_scores self q k = Inr r"
    by (simp only: assms(1) r_def scores_def)
  have len: "length r = min (nat k) (length (trials self))"
    using assms(3) by (simp add: r_def top_n_indices_length n)
  have each: "list_all (\<lambda>a. score a = scores ! index a) r"
    unfolding r_def by (rule list_all_items)
  have flat: "map index r = [0..<min (nat k) (length (trials self))]"
    if "\<forall>i < length (trials self). \<forall>j < length (trials self). scores ! i = scores ! j"
  proof -
    have "top_n_indices scores k = [0..<min (nat k) (length scores)]"
      using that assms(3) by (intro top_n_indices_equal_scores) (simp_all only: n less_imp_le)
    then show ?thesis
      by (simp only: r_def map_index_items n)
  qed
  from ret len each flat show ?thesis
    unfolding scores_def by blast
qed

theorem retrieve_empty_query_witness:
  "RAGChatbot_tokenize ''?!'' = []
   \<and> length (overlap_scores (bm25 example_chatbot) []) = length (trials example_chatbot)
   \<and> (0::int) < 2
   \<and> (\<exists>r. retrieve_relevant_trials overlap_scores example_chatbot ''?!'' 2 = Inr r
           \<and> length r = min (nat 2) (length (trials example_chatbot))
           \<and> list_all (\<lambda>a. score a = overlap_scores (bm25 example_chatbot) [] ! index a) r
           \<and> ((\<forall>i < length (trials example_chatbot). \<forall>j < length (trials example_chatbot).
                  overlap_scores (bm25 example_chatbot) [] ! i
                    = overlap_scores (bm25 example_chatbot) [] ! j)
                \<longrightarrow> map index r = [0..<min (nat 2) (length (trials example_chatbot))]))"
proof -
  have t: "RAGChatbot_tokenize ''?!'' = []"
    by code_simp
  have l: "length (overlap_scores (bm25 example_chatbot) []) = length (trials example_chatbot)"
    by (simp only: example_scores_empty example_length) simp
  have k: "(0::int) < 2"
    by simp
  from retrieve_empty_query [of "''?!''" overlap_scores example_chatbot 2, OF t l k] t l k
  show ?thesis by (intro conjI)
qed

text \<open>
  C3, as the specification states it, fails: the empty query text has no tokens, and
  with \<open>n_results = 2\<close> the example returns the first two positions with score 0, not
  an empty result.
\<close>

theorem retrieve_empty_query_counterexample:
  "RAGChatbot_tokenize '''' = []
   \<and> query_result overlap_scores example_chatbot '''' 2 = Inr [(0, 0), (1, 0)]"
  by code_simp

lemma create_trial_text_empty: "create_trial_text Map.empty = []"
  by (simp add: create_trial_text_def part_def eligibility_part_def)

lemma tokenize_empty: "TrialIndexer_tokenize [] = []"
  by (simp add: TrialIndexer_tokenize_def str_lower_def str_split_def)

lemma build_index_Inr:
  assumes "build_index BM25Okapi loaded = Inr idx"
  shows "trials idx = loaded"
    and "tokenized_corpus idx = map (\<lambda>t. TrialIndexer_tokenize (create_trial_text t)) loaded"
    and "BM25Okapi (map (\<lambda>t. TrialIndexer_tokenize (create_trial_text t)) loaded) = Inr (bm25 idx)"
  using assms by (auto simp: build_index_def Let_def comp_def split: sum.splits)

lemma trials_init: "trials (RAGChatbot_init idx) = trials idx"
  by (simp add: RAGChatbot_init_def)

section \<open>Claims about the corpus\<close>

text \<open>
  C9. A successful \<open>build_index\<close> keeps the records as they were read and tokenizes
  them one by one in input order: the tokenized corpus has the length of the record
  sequence, and its \<open>i\<close>-th document is the tokenized text of the \<open>i\<close>-th record. A
  record without fields gives the empty document. Every position in a result of
  \<open>retrieve_relevant_trials\<close> on the chatbot loaded from that index is below the corpus
  length (positions are natural numbers, so they are never negative).
\<close>

theorem corpus_aligned:
  assumes "build_index BM25Okapi loaded = Inr idx"
  shows "trials idx = loaded
         \<and> length (tokenized_corpus idx) = length loaded
         \<and> (\<forall>i < length loaded.
               tokenized_corpus idx ! i = TrialIndexer_tokenize (create_trial_text (loaded ! i)))
         \<and> (\<forall>i < length loaded. loaded ! i = Map.empty \<longrightarrow> tokenized_corpus idx ! i = [])
         \<and> (\<forall>get_scores q k r.
               retrieve_relevant_trials get_scores (RAGChatbot_init idx) q k = Inr r
               \<longrightarrow> list_all (\<lambda>a. index a < length (tokenized_corpus idx)) r)"
proof -
  note b = build_index_Inr [OF assms]
  have len: "length (tokenized_corpus idx) = length loaded"
    by (simp add: b(2))
  have nth: "tokenized_corpus idx ! i = TrialIndexer_tokenize (create_trial_text (loaded ! i))"
    if "i < length loaded" for i
    using that by (simp add: b(2))
  have emp: "tokenized_corpus idx ! i = []" if "i < length loaded" "loaded ! i = Map.empty" for i
    using nth [OF that(1)] that(2) by (simp add: create_trial_text_empty tokenize_empty)
  have pos: "list_all (\<lambda>a. index a < length (tokenized_corpus idx)) r"
    if "retrieve_relevant_trials get_scores (RAGChatbot_init idx) q k = Inr r"
    for get_scores :: "'a \<Rightarrow> string list \<Rightarrow> real list" and q k r
  proof -
    from retrieve_Inr [OF that]
    show ?thesis by (simp add: list_all_iff trials_init b(1) len)
  qed
  show ?thesis
    using b(1) len nth emp pos by blast
qed

lemma example_build: "build_index accepting_index example_trials = Inr example_index"
  by (simp add: build_index_def accepting_index_def example_index_def Let_def comp_def)

theorem corpus_aligned_witness:
  "build_index accepting_index example_trials = Inr example_index
   \<and> trials example_index = example_trials
   \<and> length (tokenized_corpus example_index) = length example_trials
   \<and> tokenized_corpus example_index ! 2 = []
   \<and> query_result overlap_scores (RAGChatbot_init example_index) ''PTSD trial?'' 5
       = Inr [(0, 2), (1, 1), (2, 0)]"
proof -
  have e2: "(2::nat) < length example_trials" "example_trials ! 2 = Map.empty"
    by (simp_all add: example_trials_def)
  have q: "query_result overlap_scores (RAGChatbot_init example_index) ''PTSD trial?'' 5
       = Inr [(0, 2), (1, 1), (2, 0)]"
    by code_simp
  from corpus_aligned [OF example_build] e2 q example_build
  show ?thesis by blast
qed

lemma length_le_of_distinct_below:
  assumes "distinct xs" and "\<forall>i \<in> set xs. i < (n::nat)"
  shows "length xs \<le> n"
proof -
  have "set xs \<subseteq> {..<n}" using assms(2) by auto
  then have "card (set xs) \<le> card {..<n}" by (intro card_mono) simp_all
  then show ?thesis using assms(1) by (simp add: distinct_card)
qed

lemma retrieve_length:
  assumes "retrieve_relevant_trials get_scores self q k = Inr r" and "0 \<le> k"
  shows "length r \<le> nat k" and "length r \<le> length (trials self)"
proof -
  let ?scores = "get_scores (bm25 self) (RAGChatbot_tokenize q)"
  note r = retrieve_Inr [OF assms(1)]
  have l: "length r = length (top_n_indices ?scores k)"
    by (simp add: r(1))
  show "length r \<le> nat k"
    using assms(2) by (simp add: l top_n_indices_length)
  show "length r \<le> length (trials self)"
    unfolding l using top_n_indices_distinct r(2) by (rule length_le_of_distinct_below)
qed

lemma chat_Inr:
  assumes "chat get_scores create measured self q = Inr (res, self')"
  shows "\<exists>rel. retrieve_relevant_trials get_scores self q 10 = Inr rel
           \<and> sources res = map source_of rel"
  using assms
  by (auto simp: chat_def n_results_default_def Let_def split: sum.splits)

section \<open>Claims about the endpoint\<close>

text \<open>
  C10. \<open>chat\<close> retrieves with the default \<open>n_results = 10\<close>: its sources are those of
  \<open>retrieve_relevant_trials\<close> called with 10, so there are at most \<open>min(10, number of
  trials)\<close> of them. The handler of \<open>POST /chat\<close> passes only the query text to
  \<open>chat\<close>: two valid requests with the same query text get the same reply and leave
  the chatbot in the same state, whatever their \<open>n_results\<close> fields are.
\<close>

theorem n_results_not_forwarded:
  assumes "valid_ChatRequest r1" and "valid_ChatRequest r2" and "query r1 = query r2"
  shows "api_chat get_scores create measured chatbot r1
           = api_chat get_scores create measured chatbot r2
         \<and> (\<forall>self res self'.
               chat get_scores create measured self (query r1) = Inr (res, self')
               \<longrightarrow> (\<exists>rel. retrieve_relevant_trials get_scores self (query r1) 10 = Inr rel
                          \<and> sources res = map source_of rel
                          \<and> length (sources res) \<le> min 10 (length (trials self))))"
proof -
  have same: "api_chat get_scores create measured chatbot r1
                = api_chat get_scores create measured chatbot r2"
    unfolding api_chat_def assms(3) using assms(1,2) by simp
  have count: "\<exists>rel. retrieve_relevant_trials get_scores self (query r1) 10 = Inr rel
                  \<and> sources res = map source_of rel
                  \<and> length (sources res) \<le> min 10 (length (trials self))"
    if c: "chat get_scores create measured self (query r1) = Inr (res, self')"
    for self res self'
  proof -
    from chat_Inr [OF c] obtain rel
      where rel: "retrieve_relevant_trials get_scores self (query r1) 10 = Inr rel"
        and src: "sources res = map source_of rel"
      by blast
    have "length rel \<le> nat 10" and "length rel \<le> length (trials self)"
      using retrieve_length [OF rel] by simp_all
    then have "length (sources res) \<le> min 10 (length (trials self))"
      by (simp add: src)
    with rel src show ?thesis by blast
  qed
  show ?thesis
    using same count by blast
qed

theorem n_results_not_forwarded_witness:
  "valid_ChatRequest \<lparr>query = ''PTSD trial?'', n_results = Some 1\<rparr>
   \<and> valid_ChatRequest \<lparr>query = ''PTSD trial?'', n_results = Some 20\<rparr>
   \<and> api_chat overlap_scores example_create example_timing (Some example_chatbot)
        \<lparr>query = ''PTSD trial?'', n_results = Some 1\<rparr>
       = api_chat overlap_scores example_create example_timing (Some example_chatbot)
        \<lparr>query = ''PTSD trial?'', n_results = Some 20\<rparr>"
proof -
  let ?r1 = "\<lparr>query = ''PTSD trial?'', n_results = Some 1\<rparr>"
  let ?r2 = "\<lparr>query = ''PTSD trial?'', n_results = Some 20\<rparr>"
  have v1: "valid_ChatRequest ?r1" by (simp add: valid_ChatRequest_def)
  have v2: "valid_ChatRequest ?r2" by (simp add: valid_ChatRequest_def)
  have q: "query ?r1 = query ?r2" by simp
  from n_results_not_forwarded [OF v1 v2 q, of overlap_scores example_create example_timing
      "Some example_chatbot"]
  have "api_chat overlap_scores example_create example_timing (Some example_chatbot) ?r1
       = api_chat overlap_scores example_create example_timing (Some example_chatbot) ?r2"
    by (rule conjunct1)
  with v1 v2 show ?thesis by (intro conjI)
qed

text \<open>
  On the example, a request for one result gets all three trials as sources, and the
  counter of queries goes up by one.
\<close>

lemma example_sources:
  "(case api_chat overlap_scores example_create example_timing (Some example_chatbot)
          \<lparr>query = ''PTSD trial?'', n_results = Some 1\<rparr> of
      Inl e \<Rightarrow> None
    | Inr (response, cb) \<Rightarrow>
        Some (map (\<lambda>s. (Title s, Score s, Relevance s)) (response_sources response),
              response_answer response, total_queries (stats cb)))
   = Some ([(''PTSD trial adult'', 2, 20), (''Cancer trial'', 1, 10), (''N/A'', 0, 0)],
           ''See the cited trials.'', 1)"
  by code_simp

end
